theory Spec2Isabelle
  imports Complex_Main "HOL-Library.Multiset" "HOL-Library.Sublist"
begin

section \<open>Python values\<close>

text \<open>
  A Python \<open>str\<close> is a sequence of Unicode code points: \<open>len\<close> and slicing count code
  points, so a string is modelled as a list of code points. \<open>py\<close> embeds an ASCII literal
  of the source.
\<close>

type_synonym pystr = "nat list"

definition py :: "string \<Rightarrow> pystr" where
  "py s = map of_char s"

text \<open>
  A Python \<open>float\<close> is not-a-number, an infinity, or a finite number. A finite float is
  modelled by the real number it denotes; comparisons of floats are exact, so they are the
  comparisons of these reals.
\<close>

datatype pyfloat = NaN | NegInf | Fin real | PosInf

text \<open>
  The values the program handles: \<open>None\<close>, floats and strings. A cell of the table read
  by \<open>pandas.read_csv\<close> is a float (a missing cell is \<open>NaN\<close>) or a string.
\<close>

datatype pyval = PyNone | Float pyfloat | Str pystr

datatype error =
    KeyError string
  | TypeError
  | ValueError
  | AttributeError
  | IOError

text \<open>\<open>pandas.isna\<close> on a scalar: \<open>None\<close> and \<open>NaN\<close> are missing.\<close>

fun isna :: "pyval \<Rightarrow> bool" where
  "isna PyNone = True"
| "isna (Float NaN) = True"
| "isna (Float _) = False"
| "isna (Str _) = False"

text \<open>A cell that holds a number: a float other than \<open>NaN\<close>.\<close>

fun is_number :: "pyval \<Rightarrow> bool" where
  "is_number (Float f) = (f \<noteq> NaN)"
| "is_number v = False"

text \<open>The comparison \<open>x >= c\<close> of a float with a finite float.\<close>

fun float_ge :: "pyfloat \<Rightarrow> real \<Rightarrow> bool" where
  "float_ge NaN c = False"
| "float_ge NegInf c = False"
| "float_ge (Fin x) c = (c \<le> x)"
| "float_ge PosInf c = True"

text \<open>The comparison \<open>x >= y\<close> of two floats.\<close>

fun fge :: "pyfloat \<Rightarrow> pyfloat \<Rightarrow> bool" where
  "fge NaN y = False"
| "fge x NaN = False"
| "fge x NegInf = True"
| "fge PosInf y = True"
| "fge NegInf y = False"
| "fge (Fin x) (Fin y) = (y \<le> x)"
| "fge (Fin x) PosInf = False"

section \<open>Rating classifier\<close>

text \<open>
  \<^verbatim>\<open>
  def color_by_rating(r: float) -> str:
      if pd.isna(r):
          return "gray"
      if r >= 9.0:
          return "green"
      if r >= 8.0:
          return "orange"
      return "red"
  \<close>
  Comparing a string with a float raises \<open>TypeError\<close>.
\<close>

fun color_by_rating :: "pyval \<Rightarrow> error + pystr" where
  "color_by_rating (Str s) = Inl TypeError"
| "color_by_rating PyNone = Inr (py ''gray'')"
| "color_by_rating (Float f) =
     (if isna (Float f) then Inr (py ''gray'')
      else if float_ge f 9 then Inr (py ''green'')
      else if float_ge f 8 then Inr (py ''orange'')
      else Inr (py ''red''))"

section \<open>Dataset loader\<close>

text \<open>
  A \<open>pandas.DataFrame\<close>: the column labels, and the rows in order. A row gives the cell of
  every column; what it gives outside \<open>columns\<close> is never read (\<open>row_item\<close>, \<open>row_get\<close>).
\<close>

type_synonym row = "string \<Rightarrow> pyval"

record dataframe =
  columns :: "string list"
  rows :: "row list"

text \<open>
  \<open>df.dropna(subset=cols)\<close>: a label of \<open>cols\<close> that is not a column raises \<open>KeyError\<close>;
  otherwise the rows with a missing cell in one of \<open>cols\<close> are dropped.
\<close>

definition dropna :: "string list \<Rightarrow> dataframe \<Rightarrow> error + dataframe" where
  "dropna cols df =
     (case filter (\<lambda>c. c \<notin> set (columns df)) cols of
        c # cs \<Rightarrow> Inl (KeyError c)
      | [] \<Rightarrow> Inr (df\<lparr>rows := filter (\<lambda>r. list_all (\<lambda>c. \<not> isna (r c)) cols) (rows df)\<rparr>))"

text \<open>
  \<open>pd.to_numeric(x, errors="coerce")\<close> on one cell. The number parser of pandas is the
  parameter \<open>parse\<close>: it gives the float a string denotes, and \<open>NaN\<close> for a string that
  denotes none.
\<close>

fun to_numeric :: "(pystr \<Rightarrow> pyfloat) \<Rightarrow> pyval \<Rightarrow> pyval" where
  "to_numeric parse (Float f) = Float f"
| "to_numeric parse (Str s) = Float (parse s)"
| "to_numeric parse PyNone = Float NaN"

definition coerce_rating :: "(pystr \<Rightarrow> pyfloat) \<Rightarrow> row \<Rightarrow> row" where
  "coerce_rating parse r = r(''hotel_rating'' := to_numeric parse (r ''hotel_rating''))"

text \<open>
  \<^verbatim>\<open>
  def load_data(path: str) -> pd.DataFrame:
      df = pd.read_csv(path, encoding="utf-8-sig")
      df = df.dropna(subset=["hotel_rating", "hotel_latitude", "hotel_longitude"])
      df["hotel_rating"] = pd.to_numeric(df["hotel_rating"], errors="coerce")
      df = df.dropna(subset=["hotel_rating"])
      return df
  \<close>
  \<open>read_csv\<close> is pandas' reader: a parameter that gives the table of a path or fails.
\<close>

definition load_data ::
  "(pystr \<Rightarrow> error + dataframe) \<Rightarrow> (pystr \<Rightarrow> pyfloat) \<Rightarrow> pystr \<Rightarrow> error + dataframe" where
  "load_data read_csv parse path =
     (case read_csv path of
        Inl e \<Rightarrow> Inl e
      | Inr df \<Rightarrow>
          (case dropna [''hotel_rating'', ''hotel_latitude'', ''hotel_longitude''] df of
             Inl e \<Rightarrow> Inl e
           | Inr df1 \<Rightarrow>
               dropna [''hotel_rating''] (df1\<lparr>rows := map (coerce_rating parse) (rows df1)\<rparr>)))"

section \<open>Filter and sort\<close>

text \<open>The element-wise test \<open>df["city_name"] == selected_city\<close>; the selection may be \<open>None\<close>.\<close>

fun city_eq :: "pyval \<Rightarrow> pystr option \<Rightarrow> bool" where
  "city_eq (Str s) (Some c) = (s = c)"
| "city_eq v sel = False"

text \<open>The element-wise test \<open>city_df["hotel_rating"] >= min_rating\<close> on a numeric cell.\<close>

fun rating_ge :: "pyval \<Rightarrow> real \<Rightarrow> bool" where
  "rating_ge (Float f) m = float_ge f m"
| "rating_ge v m = False"

fun is_str :: "pyval \<Rightarrow> bool" where
  "is_str (Str s) = True"
| "is_str v = False"

text \<open>\<open>x >= y\<close> on two cells that hold floats.\<close>

fun val_ge :: "pyval \<Rightarrow> pyval \<Rightarrow> bool" where
  "val_ge (Float x) (Float y) = fge x y"
| "val_ge v w = False"

text \<open>
  \<open>sort_values(by="hotel_rating", ascending=False)\<close> is pandas' sort, called with its
  default algorithm: a parameter \<open>sort_values\<close> of the model. What the call promises on a
  list of rows is \<open>sorts_desc\<close>: the result holds the same rows, by rating descending, the
  missing ratings last. \<open>desc_na_last a b\<close> says that \<open>a\<close> may stand before \<open>b\<close>.
\<close>

definition desc_na_last :: "row \<Rightarrow> row \<Rightarrow> bool" where
  "desc_na_last a b =
     (isna (b ''hotel_rating'')
      \<or> (\<not> isna (a ''hotel_rating'') \<and> val_ge (a ''hotel_rating'') (b ''hotel_rating'')))"

definition sorts_desc :: "(row list \<Rightarrow> row list) \<Rightarrow> row list \<Rightarrow> bool" where
  "sorts_desc sort_values xs =
     (mset (sort_values xs) = mset xs \<and> sorted_wrt desc_na_last (sort_values xs))"

text \<open>\<open>df.head(n)\<close>: the first \<open>n\<close> rows; for a negative \<open>n\<close>, all but the last \<open>-n\<close> rows.\<close>

definition head :: "int \<Rightarrow> 'a list \<Rightarrow> 'a list" where
  "head n xs = (if 0 \<le> n then take (nat n) xs else take (nat (int (length xs) + n)) xs)"

text \<open>
  \<^verbatim>\<open>
  city_df = (
      df[df["city_name"] == selected_city]
      .sort_values(by="hotel_rating", ascending=False)
  )
  city_df = city_df[city_df["hotel_rating"] >= min_rating].head(top_n)
  \<close>
  A label that is not a column raises \<open>KeyError\<close>; ordering strings against floats
  raises \<open>TypeError\<close>.
\<close>

definition city_df ::
  "(row list \<Rightarrow> row list) \<Rightarrow> dataframe \<Rightarrow> pystr option \<Rightarrow> real \<Rightarrow> int \<Rightarrow> error + dataframe" where
  "city_df sort_values df selected_city min_rating top_n =
     (if ''city_name'' \<notin> set (columns df) then Inl (KeyError ''city_name'')
      else if ''hotel_rating'' \<notin> set (columns df) then Inl (KeyError ''hotel_rating'')
      else
        let in_city = filter (\<lambda>r. city_eq (r ''city_name'') selected_city) (rows df) in
        if list_ex (\<lambda>r. is_str (r ''hotel_rating'')) in_city then Inl TypeError
        else Inr (df\<lparr>rows :=
               head top_n (filter (\<lambda>r. rating_ge (r ''hotel_rating'') min_rating)
                 (sort_values in_city))\<rparr>))"

text \<open>
  Two sorts that keep the promise \<open>sorts_desc\<close> on float ratings: an insertion sort that
  leaves equal ratings in their order, and the same sort run on the reversed list, which
  reverses them.
\<close>

fun insert_desc :: "row \<Rightarrow> row list \<Rightarrow> row list" where
  "insert_desc x [] = [x]"
| "insert_desc x (y # ys) = (if desc_na_last y x then y # insert_desc x ys else x # y # ys)"

fun stable_sort_desc :: "row list \<Rightarrow> row list" where
  "stable_sort_desc [] = []"
| "stable_sort_desc (x # xs) = insert_desc x (stable_sort_desc xs)"

definition reversing_sort_desc :: "row list \<Rightarrow> row list" where
  "reversing_sort_desc xs = stable_sort_desc (rev xs)"

text \<open>
  Rows of equal rating keep their order: for each row of \<open>out\<close>, the rows of \<open>out\<close> with
  its rating come in an order in which they occur in \<open>orig\<close>.
\<close>

definition same_rating :: "row \<Rightarrow> row \<Rightarrow> bool" where
  "same_rating x r = (r ''hotel_rating'' = x ''hotel_rating'')"

definition keeps_tie_order :: "row list \<Rightarrow> row list \<Rightarrow> bool" where
  "keeps_tie_order orig out =
     list_all (\<lambda>x. subseq (filter (same_rating x) out) (filter (same_rating x) orig)) out"

definition stable_on :: "(row list \<Rightarrow> row list) \<Rightarrow> row list \<Rightarrow> bool" where
  "stable_on sort_values xs =
     list_all (\<lambda>x. filter (same_rating x) (sort_values xs) = filter (same_rating x) xs)
       (sort_values xs)"

section \<open>Popup markup\<close>

text \<open>
  \<open>s.replace(c, rep)\<close> for a one-character \<open>c\<close>, and \<open>html.escape(s)\<close> of the standard
  library (with its default \<open>quote=True\<close>), which is five such replacements, the
  ampersand first:
  \<^verbatim>\<open>
  s = s.replace("&", "&amp;")
  s = s.replace("<", "&lt;")
  s = s.replace(">", "&gt;")
  s = s.replace('"', "&quot;")
  s = s.replace('\'', "&#x27;")
  \<close>
  The code points are 38 for the ampersand, 60 and 62 for the angle brackets, 34 for the
  double quote and 39 for the single quote.
\<close>

definition replace_char :: "nat \<Rightarrow> pystr \<Rightarrow> pystr \<Rightarrow> pystr" where
  "replace_char c rep s = concat (map (\<lambda>x. if x = c then rep else [x]) s)"

definition html_escape :: "pystr \<Rightarrow> pystr" where
  "html_escape s =
     replace_char 39 (py ''&#x27;'')
       (replace_char 34 (py ''&quot;'')
         (replace_char 62 (py ''&gt;'')
           (replace_char 60 (py ''&lt;'')
             (replace_char 38 (py ''&amp;'') s))))"

text \<open>
  \<open>str(x)\<close>. The digits Python prints for a finite float are a matter of its binary
  representation: \<open>float_repr\<close> is a parameter.
\<close>

fun py_str :: "(real \<Rightarrow> pystr) \<Rightarrow> pyval \<Rightarrow> pystr" where
  "py_str float_repr (Str s) = s"
| "py_str float_repr PyNone = py ''None''"
| "py_str float_repr (Float NaN) = py ''nan''"
| "py_str float_repr (Float PosInf) = py ''inf''"
| "py_str float_repr (Float NegInf) = py ''-inf''"
| "py_str float_repr (Float (Fin x)) = float_repr x"

text \<open>The decimal digits of a natural number, as \<open>str\<close> prints an \<open>int\<close>.\<close>

fun dec_digits :: "nat \<Rightarrow> pystr" where
  "dec_digits n = (if n < 10 then [48 + n] else dec_digits (n div 10) @ [48 + n mod 10])"

declare dec_digits.simps [simp del]

text \<open>
  The format \<open>.1f\<close>: the value rounded to one decimal, ties to the even digit, printed
  as sign, integer digits, point, one digit.
\<close>

definition round_half_even :: "real \<Rightarrow> int" where
  "round_half_even x =
     (let f = \<lfloor>x\<rfloor>; d = x - of_int f in
      if d < 1 / 2 then f
      else if 1 / 2 < d then f + 1
      else if even f then f else f + 1)"

fun format_1f :: "pyfloat \<Rightarrow> pystr" where
  "format_1f NaN = py ''nan''"
| "format_1f PosInf = py ''inf''"
| "format_1f NegInf = py ''-inf''"
| "format_1f (Fin x) =
     (let n = nat (round_half_even (\<bar>x\<bar> * 10)) in
      (if x < 0 then py ''-'' else []) @ dec_digits (n div 10) @ py ''.'' @ [48 + n mod 10])"

text \<open>
  \<open>rating_txt = f"{rating:.1f}" if pd.notna(rating) else "N/A"\<close>; the format \<open>.1f\<close> of a
  string raises \<open>ValueError\<close>.
\<close>

fun rating_txt :: "pyval \<Rightarrow> error + pystr" where
  "rating_txt (Str s) = Inl ValueError"
| "rating_txt PyNone = Inr (py ''N/A'')"
| "rating_txt (Float f) = (if isna (Float f) then Inr (py ''N/A'') else Inr (format_1f f))"

text \<open>
  \<open>row.get(k, d)\<close> and \<open>row[k]\<close> on a row of the table \<open>df\<close>: the default, or
  \<open>KeyError\<close>, is for a label that is not a column.
\<close>

definition row_get :: "dataframe \<Rightarrow> row \<Rightarrow> string \<Rightarrow> pyval \<Rightarrow> pyval" where
  "row_get df r k d = (if k \<in> set (columns df) then r k else d)"

definition row_item :: "dataframe \<Rightarrow> row \<Rightarrow> string \<Rightarrow> error + pyval" where
  "row_item df r k = (if k \<in> set (columns df) then Inr (r k) else Inl (KeyError k))"

text \<open>
  \<^verbatim>\<open>
  name = row.get("hotel_name", "Unknown Hotel")
  rating = row.get("hotel_rating", None)
  url = row.get("hotel_url", "#")
  desc = row.get("hotel_description", "")
  safe_name = html.escape(str(name))
  safe_desc = html.escape(str(desc))[:300] + ("..." if len(str(desc)) > 300 else "")
  \<close>
\<close>

definition name_of :: "dataframe \<Rightarrow> row \<Rightarrow> pyval" where
  "name_of df r = row_get df r ''hotel_name'' (Str (py ''Unknown Hotel''))"

definition url_of :: "dataframe \<Rightarrow> row \<Rightarrow> pyval" where
  "url_of df r = row_get df r ''hotel_url'' (Str (py ''#''))"

definition desc_of :: "dataframe \<Rightarrow> row \<Rightarrow> pyval" where
  "desc_of df r = row_get df r ''hotel_description'' (Str [])"

definition safe_name :: "(real \<Rightarrow> pystr) \<Rightarrow> pyval \<Rightarrow> pystr" where
  "safe_name float_repr name = html_escape (py_str float_repr name)"

definition safe_desc :: "(real \<Rightarrow> pystr) \<Rightarrow> pyval \<Rightarrow> pystr" where
  "safe_desc float_repr desc =
     take 300 (html_escape (py_str float_repr desc))
     @ (if 300 < length (py_str float_repr desc) then py ''...'' else [])"

definition safe_url :: "(real \<Rightarrow> pystr) \<Rightarrow> pyval \<Rightarrow> pystr" where
  "safe_url float_repr url = html_escape (py_str float_repr url)"

text \<open>
  The popup's f-string, with its four holes. \<open>nl\<close> is the line feed, \<open>dq\<close> the double
  quote, 128279 the link sign before \<open>View on Booking\<close>.
  \<^verbatim>\<open>
    <div style="font-size:13px; line-height:1.3;">
      <strong>{safe_name}</strong><br>
      <em>Rating:</em> {rating_txt}<br>
      <em>Description:</em> {safe_desc}<br>
      <a href="{html.escape(str(url))}" target="_blank" rel="noopener noreferrer">.. View on Booking</a>
    </div>
  \<close>
\<close>

definition nl :: pystr where
  "nl = [10]"

definition dq :: pystr where
  "dq = [34]"

definition popup_template :: "pystr \<Rightarrow> pystr \<Rightarrow> pystr \<Rightarrow> pystr \<Rightarrow> pystr" where
  "popup_template sname rtxt sdesc surl =
     nl @ py ''    <div style='' @ dq @ py ''font-size:13px; line-height:1.3;'' @ dq @ py ''>''
     @ nl @ py ''      <strong>'' @ sname @ py ''</strong><br>''
     @ nl @ py ''      <em>Rating:</em> '' @ rtxt @ py ''<br>''
     @ nl @ py ''      <em>Description:</em> '' @ sdesc @ py ''<br>''
     @ nl @ py ''      <a href='' @ dq @ surl @ dq @ py '' target='' @ dq @ py ''_blank'' @ dq
       @ py '' rel='' @ dq @ py ''noopener noreferrer'' @ dq @ py ''>'' @ [128279]
       @ py '' View on Booking</a>''
     @ nl @ py ''    </div>''
     @ nl @ py ''    ''"

definition popup_html :: "(real \<Rightarrow> pystr) \<Rightarrow> dataframe \<Rightarrow> row \<Rightarrow> error + pystr" where
  "popup_html float_repr df r =
     (case rating_txt (row_get df r ''hotel_rating'' PyNone) of
        Inl e \<Rightarrow> Inl e
      | Inr rtxt \<Rightarrow>
          Inr (popup_template (safe_name float_repr (name_of df r)) rtxt
                 (safe_desc float_repr (desc_of df r)) (safe_url float_repr (url_of df r))))"

section \<open>Map builder\<close>

text \<open>
  What is handed to folium: a marker with its location, its popup and its icon, and the map
  with its tiles, the bounds it is fitted to, whether the markers go into a cluster, and
  the markers. folium's own checks of these arguments are outside the model.
  \<^verbatim>\<open>
  folium.Marker(
      location=[row["hotel_latitude"], row["hotel_longitude"]],
      popup=folium.Popup(popup_html, max_width=320),
      icon=folium.Icon(color=color_by_rating(row["hotel_rating"]), icon="info-sign")
  ).add_to(cluster)
  \<close>
\<close>

record marker =
  location :: "pyval \<times> pyval"
  popup :: pystr
  popup_max_width :: nat
  icon_color :: pystr
  icon_name :: pystr

record map_view =
  tiles :: pystr
  bounds :: "(pyval \<times> pyval) list"
  clustered :: bool
  markers :: "marker list"

definition make_marker :: "(real \<Rightarrow> pystr) \<Rightarrow> dataframe \<Rightarrow> row \<Rightarrow> error + marker" where
  "make_marker float_repr df r =
     (case popup_html float_repr df r of
        Inl e \<Rightarrow> Inl e
      | Inr p \<Rightarrow>
     (case row_item df r ''hotel_latitude'' of
        Inl e \<Rightarrow> Inl e
      | Inr lat \<Rightarrow>
     (case row_item df r ''hotel_longitude'' of
        Inl e \<Rightarrow> Inl e
      | Inr lon \<Rightarrow>
     (case row_item df r ''hotel_rating'' of
        Inl e \<Rightarrow> Inl e
      | Inr rating \<Rightarrow>
     (case color_by_rating rating of
        Inl e \<Rightarrow> Inl e
      | Inr c \<Rightarrow>
          Inr \<lparr>location = (lat, lon), popup = p, popup_max_width = 320,
               icon_color = c, icon_name = py ''info-sign''\<rparr>)))))"

text \<open>The loop over \<open>city_df.iterrows()\<close>: it ends at the first row that raises.\<close>

fun add_markers :: "(real \<Rightarrow> pystr) \<Rightarrow> dataframe \<Rightarrow> row list \<Rightarrow> error + marker list" where
  "add_markers float_repr df [] = Inr []"
| "add_markers float_repr df (r # rs) =
     (case make_marker float_repr df r of
        Inl e \<Rightarrow> Inl e
      | Inr m \<Rightarrow>
          (case add_markers float_repr df rs of
             Inl e \<Rightarrow> Inl e
           | Inr ms \<Rightarrow> Inr (m # ms)))"

text \<open>
  \<^verbatim>\<open>
  m = folium.Map(tiles="OpenStreetMap")
  bounds = city_df[["hotel_latitude", "hotel_longitude"]].values.tolist()
  m.fit_bounds(bounds)
  cluster = MarkerCluster().add_to(m) if nb_hotels > 10 else m
  \<close>
\<close>

definition build_map :: "(real \<Rightarrow> pystr) \<Rightarrow> dataframe \<Rightarrow> error + map_view" where
  "build_map float_repr cdf =
     (if ''hotel_latitude'' \<notin> set (columns cdf) then Inl (KeyError ''hotel_latitude'')
      else if ''hotel_longitude'' \<notin> set (columns cdf) then Inl (KeyError ''hotel_longitude'')
      else
        (case add_markers float_repr cdf (rows cdf) of
           Inl e \<Rightarrow> Inl e
         | Inr ms \<Rightarrow>
             Inr \<lparr>tiles = py ''OpenStreetMap'',
                  bounds = map (\<lambda>r. (r ''hotel_latitude'', r ''hotel_longitude'')) (rows cdf),
                  clustered = (10 < length (rows cdf)),
                  markers = ms\<rparr>))"

section \<open>The page\<close>

text \<open>
  One run of the script. What it shows is a list of elements, in order: a markdown text
  (with the flag \<open>unsafe_allow_html\<close>), a markdown text in the sidebar, a warning, or the
  folium map with its width and height. The run ends at the last line, at \<open>st.stop()\<close>,
  or at an exception. The three widgets of the sidebar are the user's input: the selected
  city (\<open>None\<close> when there is no city to select), the minimum rating and the number of
  hotels are parameters of the run.
\<close>

datatype ui =
    Markdown pystr bool
  | SidebarMarkdown pystr
  | Warning pystr
  | StFolium map_view nat nat

datatype status = Finished | Stopped | Raised error

definition sq :: pystr where
  "sq = [39]"

definition page_title :: pystr where
  "page_title =
     py ''<h1 style='' @ sq @ py ''text-align:center; margin-top:0;'' @ sq
     @ py ''>Top Hotels by City (France)</h1>''"

definition str_opt :: "pystr option \<Rightarrow> pystr" where
  "str_opt sel = (case sel of None \<Rightarrow> py ''None'' | Some c \<Rightarrow> c)"

definition empty_notice :: "pystr option \<Rightarrow> pystr" where
  "empty_notice sel = py ''No hotels meeting the criteria in **'' @ str_opt sel @ py ''**.''"

definition city_title :: "nat \<Rightarrow> pystr \<Rightarrow> pystr" where
  "city_title nb_hotels city =
     py ''<h2 style='' @ sq @ py ''text-align:center;'' @ sq @ py ''>Top '' @ dec_digits nb_hotels
     @ py '' Hotels in '' @ html_escape city @ py ''</h2>''"

text \<open>
  The legend of the last line. 128994, 128992 and 128308 are the green, orange and red
  circles, 8805 the sign for greater-or-equal, 8211 the dash, 8195 the wide space.
\<close>

definition legend :: pystr where
  "legend =
     py ''**Legend:** '' @ [128994] @ py '' '' @ [8805] @ py '' 9.0'' @ [8195]
     @ [128992] @ py '' 8.0'' @ [8211] @ py ''8.9'' @ [8195]
     @ [128308] @ py '' < 8.0''"

text \<open>
  \<^verbatim>\<open>
  df = load_data(CSV_PATH)
  st.markdown("<h1 ...>Top Hotels by City (France)</h1>", unsafe_allow_html=True)
  with st.sidebar:
      st.markdown("### Filters")
      cities = sorted(df["city_name"].dropna().unique())
      ...
  city_df = ...
  if city_df.empty:
      st.warning(f"No hotels meeting the criteria in **{selected_city}**.")
      st.stop()
  nb_hotels = len(city_df)
  st.markdown(f"<h2 ...>Top {nb_hotels} Hotels in {html.escape(selected_city)}</h2>",
              unsafe_allow_html=True)
  ... the map and its markers ...
  st_folium(m, width=1000, height=600)
  st.markdown("**Legend:** ...")
  \<close>
  \<open>html.escape(None)\<close> raises \<open>AttributeError\<close>.
\<close>

definition app ::
  "(pystr \<Rightarrow> error + dataframe) \<Rightarrow> (pystr \<Rightarrow> pyfloat) \<Rightarrow> (row list \<Rightarrow> row list) \<Rightarrow>
   (real \<Rightarrow> pystr) \<Rightarrow> pystr \<Rightarrow> pystr option \<Rightarrow> real \<Rightarrow> int \<Rightarrow> ui list \<times> status" where
  "app read_csv parse sort_values float_repr csv_path selected_city min_rating top_n =
     (case load_data read_csv parse csv_path of
        Inl e \<Rightarrow> ([], Raised e)
      | Inr df \<Rightarrow>
          let shown = [Markdown page_title True, SidebarMarkdown (py ''### Filters'')] in
          (case city_df sort_values df selected_city min_rating top_n of
             Inl e \<Rightarrow> (shown, Raised e)
           | Inr cdf \<Rightarrow>
               if rows cdf = [] then (shown @ [Warning (empty_notice selected_city)], Stopped)
               else
                 (case selected_city of
                    None \<Rightarrow> (shown, Raised AttributeError)
                  | Some city \<Rightarrow>
                      let shown2 = shown @ [Markdown (city_title (length (rows cdf)) city) True] in
                      (case build_map float_repr cdf of
                         Inl e \<Rightarrow> (shown2, Raised e)
                       | Inr m \<Rightarrow>
                           (shown2 @ [StFolium m 1000 600, Markdown legend False], Finished)))))"

fun is_map :: "ui \<Rightarrow> bool" where
  "is_map (StFolium m w h) = True"
| "is_map u = False"

fun is_warning :: "ui \<Rightarrow> bool" where
  "is_warning (Warning s) = True"
| "is_warning u = False"

section \<open>Example data\<close>

text \<open>
  A hotel row with every column filled, a table of three hotels of Paris and one of Lyon
  (ratings 8.2, 9.5, 7.0 and 9.0).
\<close>

definition all_columns :: "string list" where
  "all_columns =
     [''city_name'', ''hotel_name'', ''hotel_rating'', ''hotel_latitude'', ''hotel_longitude'',
      ''hotel_url'', ''hotel_description'']"

definition hotel :: "pystr \<Rightarrow> pyval \<Rightarrow> pyval \<Rightarrow> pyval \<Rightarrow> row" where
  "hotel city name rating desc =
     (\<lambda>c. if c = ''city_name'' then Str city
          else if c = ''hotel_name'' then name
          else if c = ''hotel_rating'' then rating
          else if c = ''hotel_latitude'' then Float (Fin 48)
          else if c = ''hotel_longitude'' then Float (Fin 2)
          else if c = ''hotel_url'' then Str (py ''https://www.booking.com/h'')
          else if c = ''hotel_description'' then desc
          else PyNone)"

definition hotel_a :: row where
  "hotel_a = hotel (py ''Paris'') (Str (py ''A'')) (Float (Fin (82 / 10))) (Str (py ''a''))"

definition hotel_b :: row where
  "hotel_b = hotel (py ''Lyon'') (Str (py ''B'')) (Float (Fin 9)) (Str (py ''b''))"

definition hotel_c :: row where
  "hotel_c = hotel (py ''Paris'') (Str (py ''C'')) (Float (Fin (95 / 10))) (Str (py ''c''))"

definition hotel_d :: row where
  "hotel_d = hotel (py ''Paris'') (Str (py ''D'')) (Float (Fin 7)) (Str (py ''d''))"

definition example_df :: dataframe where
  "example_df = \<lparr>columns = all_columns, rows = [hotel_a, hotel_b, hotel_c, hotel_d]\<rparr>"

text \<open>Two hotels of Paris with the same rating.\<close>

definition hotel_e :: row where
  "hotel_e = hotel (py ''Paris'') (Str (py ''E'')) (Float (Fin 9)) (Str (py ''e''))"

definition hotel_f :: row where
  "hotel_f = hotel (py ''Paris'') (Str (py ''F'')) (Float (Fin 9)) (Str (py ''f''))"

definition ties_df :: dataframe where
  "ties_df = \<lparr>columns = all_columns, rows = [hotel_e, hotel_f]\<rparr>"

text \<open>
  A table as read from a file: ratings are strings or missing, one latitude is missing.
\<close>

definition raw_example :: dataframe where
  "raw_example =
     \<lparr>columns = all_columns,
      rows =
        [hotel (py ''Paris'') (Str (py ''A'')) (Str (py ''8.2'')) (Str (py ''a'')),
         hotel (py ''Lyon'') (Str (py ''B'')) (Str (py ''9.0'')) (Str (py ''b'')),
         hotel (py ''Paris'') (Str (py ''C'')) (Float NaN) (Str (py ''c'')),
         hotel (py ''Paris'') (Str (py ''D'')) (Str (py ''n/a'')) (Str (py ''d'')),
         (hotel (py ''Paris'') (Str (py ''E'')) (Str (py ''9.0'')) (Str (py ''e'')))
           (''hotel_latitude'' := Float NaN)]\<rparr>"

definition example_parse :: "pystr \<Rightarrow> pyfloat" where
  "example_parse s =
     (if s = py ''8.2'' then Fin (82 / 10) else if s = py ''9.0'' then Fin 9 else NaN)"


section \<open>Properties of the rating classifier\<close>

text \<open>
  Claim C4. The classifier is total on floats and on the missing value: a missing rating
  (\<open>NaN\<close> or \<open>None\<close>) gives gray; a finite rating \<open>r\<close> gives green when \<open>r \<ge> 9.0\<close>,
  orange when \<open>8.0 \<le> r < 9.0\<close> and red when \<open>r < 8.0\<close>, never an error and never gray;
  the boundary values 9.0 and 8.0 give green and orange.
\<close>

theorem color_by_rating_classifies:
  "color_by_rating (Float NaN) = Inr (py ''gray'')
   \<and> color_by_rating PyNone = Inr (py ''gray'')
   \<and> color_by_rating (Float (Fin r)) =
       Inr (if 9 \<le> r then py ''green'' else if 8 \<le> r then py ''orange'' else py ''red'')
   \<and> color_by_rating (Float (Fin r)) \<in> {Inr (py ''green''), Inr (py ''orange''), Inr (py ''red'')}
   \<and> color_by_rating (Float (Fin r)) \<noteq> Inr (py ''gray'')
   \<and> color_by_rating (Float (Fin 9)) = Inr (py ''green'')
   \<and> color_by_rating (Float (Fin 8)) = Inr (py ''orange'')"
  by (simp add: py_def)

theorem color_by_rating_classifies_witness:
  "color_by_rating (Float (Fin (89 / 10))) = Inr (py ''orange'')
   \<and> color_by_rating (Float (Fin (79 / 10))) = Inr (py ''red'')
   \<and> color_by_rating (Float (Fin (95 / 10))) = Inr (py ''green'')"
  using color_by_rating_classifies [of "89 / 10"] color_by_rating_classifies [of "79 / 10"]
    color_by_rating_classifies [of "95 / 10"]
  by simp

section \<open>Properties of the loader\<close>

lemma py_eq_iff: "py a = py b \<longleftrightarrow> a = b"
  by (simp add: py_def inj_map_eq_map inj_on_def)

lemma dropna_Inr:
  "dropna cols df = Inr df' \<Longrightarrow>
     set cols \<subseteq> set (columns df) \<and> columns df' = columns df
     \<and> rows df' = filter (\<lambda>r. list_all (\<lambda>c. \<not> isna (r c)) cols) (rows df)"
  by (auto simp: dropna_def filter_empty_conv split: list.splits)

lemma is_number_to_numeric: "is_number (to_numeric parse v) = (\<not> isna (to_numeric parse v))"
  by (cases v; cases "to_numeric parse v") (auto elim: isna.elims)

lemma load_data_Inr:
  assumes "load_data read_csv parse path = Inr df"
  shows "\<exists>raw. read_csv path = Inr raw \<and> columns df = columns raw
     \<and> rows df = map (coerce_rating parse)
         (filter (\<lambda>r. \<not> isna (r ''hotel_rating'') \<and> \<not> isna (r ''hotel_latitude'')
                      \<and> \<not> isna (r ''hotel_longitude'')
                      \<and> \<not> isna (to_numeric parse (r ''hotel_rating''))) (rows raw))"
  using assms
  apply (auto simp: load_data_def split: sum.splits dest!: dropna_Inr)
  apply (auto simp: filter_map o_def coerce_rating_def  intro!: arg_cong[where f="map _"] filter_cong)
  done

lemma load_data_row:
  assumes "load_data read_csv parse path = Inr df" and "r \<in> set (rows df)"
  shows "is_number (r ''hotel_rating'') \<and> \<not> isna (r ''hotel_latitude'')
         \<and> \<not> isna (r ''hotel_longitude'')"
proof -
  from load_data_Inr [OF assms(1)] obtain raw :: dataframe where
    "rows df = map (coerce_rating parse)
         (filter (\<lambda>r. \<not> isna (r ''hotel_rating'') \<and> \<not> isna (r ''hotel_latitude'')
                      \<and> \<not> isna (r ''hotel_longitude'')
                      \<and> \<not> isna (to_numeric parse (r ''hotel_rating''))) (rows raw))"
    by blast
  with assms(2) show ?thesis
    by (auto simp: coerce_rating_def is_number_to_numeric)
qed

lemma load_data_columns:
  assumes "load_data read_csv parse path = Inr df"
  shows "''hotel_rating'' \<in> set (columns df) \<and> ''hotel_latitude'' \<in> set (columns df)
     \<and> ''hotel_longitude'' \<in> set (columns df)"
  using assms by (auto simp: load_data_def split: sum.splits dest!: dropna_Inr)

text \<open>
  Claim C2. Every row of the table that \<open>load_data\<close> returns has a rating that is a
  number and a latitude and a longitude that are not missing; the table is the one read,
  without the rows that miss one of the three cells and without the rows whose rating
  does not coerce to a number.
\<close>

theorem load_data_rows_complete:
  assumes "load_data read_csv parse path = Inr df"
  shows "list_all (\<lambda>r. is_number (r ''hotel_rating'') \<and> \<not> isna (r ''hotel_rating'')
                      \<and> \<not> isna (r ''hotel_latitude'') \<and> \<not> isna (r ''hotel_longitude''))
           (rows df)
     \<and> (\<exists>raw. read_csv path = Inr raw \<and> columns df = columns raw
          \<and> rows df = map (coerce_rating parse)
              (filter (\<lambda>r. \<not> isna (r ''hotel_rating'') \<and> \<not> isna (r ''hotel_latitude'')
                           \<and> \<not> isna (r ''hotel_longitude'')
                           \<and> \<not> isna (to_numeric parse (r ''hotel_rating''))) (rows raw)))"
proof -
  have "is_number v \<Longrightarrow> \<not> isna v" for v
    by (cases v rule: isna.cases) auto
  with load_data_row [OF assms] have "list_all (\<lambda>r. is_number (r ''hotel_rating'') \<and> \<not> isna (r ''hotel_rating'')
                      \<and> \<not> isna (r ''hotel_latitude'') \<and> \<not> isna (r ''hotel_longitude''))
           (rows df)"
    by (auto simp: list_all_iff)
  with load_data_Inr [OF assms] show ?thesis by blast
qed

lemma dropna_returns:
  "set cols \<subseteq> set (columns df) \<Longrightarrow>
   dropna cols df = Inr (df\<lparr>rows := filter (\<lambda>r. list_all (\<lambda>c. \<not> isna (r c)) cols) (rows df)\<rparr>)"
proof -
  assume "set cols \<subseteq> set (columns df)"
  then have "filter (\<lambda>c. c \<notin> set (columns df)) cols = []"
    by (auto simp: filter_empty_conv)
  then show ?thesis by (simp add: dropna_def)
qed

lemma load_data_returns:
  assumes "read_csv path = Inr raw"
    and "''hotel_rating'' \<in> set (columns raw)"
    and "''hotel_latitude'' \<in> set (columns raw)"
    and "''hotel_longitude'' \<in> set (columns raw)"
  shows "\<exists>df. load_data read_csv parse path = Inr df"
  using assms by (simp add: load_data_def dropna_returns)

lemma load_raw_example:
  "\<exists>df. load_data (\<lambda>p. Inr raw_example) example_parse (py ''hotels.csv'') = Inr df"
proof (rule load_data_returns)
  show "(\<lambda>p. Inr raw_example) (py ''hotels.csv'') = Inr raw_example" by simp
  show "''hotel_rating'' \<in> set (columns raw_example)"
    by (simp add: raw_example_def all_columns_def)
  show "''hotel_latitude'' \<in> set (columns raw_example)"
    by (simp add: raw_example_def all_columns_def)
  show "''hotel_longitude'' \<in> set (columns raw_example)"
    by (simp add: raw_example_def all_columns_def)
qed


theorem load_data_rows_complete_witness:
  "\<exists>df. load_data (\<lambda>p. Inr raw_example) example_parse (py ''hotels.csv'') = Inr df
     \<and> list_all (\<lambda>r. is_number (r ''hotel_rating'') \<and> \<not> isna (r ''hotel_rating'')
                      \<and> \<not> isna (r ''hotel_latitude'') \<and> \<not> isna (r ''hotel_longitude''))
           (rows df)
     \<and> map (\<lambda>r. (r ''hotel_name'', r ''hotel_rating'')) (rows df) =
         [(Str (py ''A''), Float (Fin (82 / 10))), (Str (py ''B''), Float (Fin 9))]"
proof -
  obtain df where df: "load_data (\<lambda>p. Inr raw_example) example_parse (py ''hotels.csv'') = Inr df"
    using load_raw_example by blast
  from load_data_rows_complete [OF df] have
    "rows df = map (coerce_rating example_parse)
              (filter (\<lambda>r. \<not> isna (r ''hotel_rating'') \<and> \<not> isna (r ''hotel_latitude'')
                           \<and> \<not> isna (r ''hotel_longitude'')
                           \<and> \<not> isna (to_numeric example_parse (r ''hotel_rating''))) (rows raw_example))"
    by simp
  then have "map (\<lambda>r. (r ''hotel_name'', r ''hotel_rating'')) (rows df) =
         [(Str (py ''A''), Float (Fin (82 / 10))), (Str (py ''B''), Float (Fin 9))]"
    by (simp add: raw_example_def hotel_def example_parse_def coerce_rating_def py_eq_iff)
  with conjunct1 [OF load_data_rows_complete [OF df]] df show ?thesis by simp
qed

section \<open>Properties of the selection\<close>

lemma head_nonneg: "0 \<le> n \<Longrightarrow> head n xs = take (nat n) xs"
  by (simp add: head_def)

lemma rating_ge_not_na: "rating_ge v m \<Longrightarrow> \<not> isna v"
  by (cases v rule: isna.cases) auto

lemma sorts_desc_set: "sorts_desc sort_values xs \<Longrightarrow> set (sort_values xs) = set xs"
  by (auto simp: sorts_desc_def dest: mset_eq_setD)

lemma sorts_desc_filter_mset:
  "sorts_desc sort_values xs \<Longrightarrow> mset (filter P (sort_values xs)) = mset (filter P xs)"
  by (simp add: sorts_desc_def mset_filter)

lemma sorts_desc_filter_length:
  "sorts_desc sort_values xs \<Longrightarrow> length (filter P (sort_values xs)) = length (filter P xs)"
  using sorts_desc_filter_mset [of sort_values xs P] by (metis size_mset)

lemma sorted_cutoff:
  assumes "sorts_desc sort_values xs"
  shows "sorted_wrt (\<lambda>a b. val_ge (a ''hotel_rating'') (b ''hotel_rating''))
           (filter (\<lambda>r. rating_ge (r ''hotel_rating'') m) (sort_values xs))"
proof -
  have "sorted_wrt desc_na_last (filter (\<lambda>r. rating_ge (r ''hotel_rating'') m) (sort_values xs))"
    using assms by (simp add: sorts_desc_def sorted_wrt_filter)
  then show ?thesis
  proof (rule sorted_wrt_mono_rel [rotated])
    fix a b
    assume "a \<in> set (filter (\<lambda>r. rating_ge (r ''hotel_rating'') m) (sort_values xs))"
      and "b \<in> set (filter (\<lambda>r. rating_ge (r ''hotel_rating'') m) (sort_values xs))"
      and "desc_na_last a b"
    then show "val_ge (a ''hotel_rating'') (b ''hotel_rating'')"
      by (auto simp: desc_na_last_def dest: rating_ge_not_na)
  qed
qed

lemma city_df_returns:
  assumes "''city_name'' \<in> set (columns df)" and "''hotel_rating'' \<in> set (columns df)"
    and "list_all (\<lambda>r. \<not> is_str (r ''hotel_rating'')) (rows df)"
  shows "city_df sort_values df selected_city min_rating top_n =
     Inr (df\<lparr>rows := head top_n (filter (\<lambda>r. rating_ge (r ''hotel_rating'') min_rating)
            (sort_values (filter (\<lambda>r. city_eq (r ''city_name'') selected_city) (rows df))))\<rparr>)"
  using assms by (auto simp: city_df_def list_ex_iff list_all_iff)

lemma top_rows:
  assumes "sorted_wrt P ys"
  shows "\<exists>rest. mset (take n ys) + mset rest = mset ys
           \<and> (\<forall>a\<in>set (take n ys). \<forall>b\<in>set rest. P a b)"
proof (intro exI conjI)
  show "mset (take n ys) + mset (drop n ys) = mset ys"
    by (metis append_take_drop_id mset_append)
  have "sorted_wrt P (take n ys @ drop n ys)" using assms by simp
  then show "\<forall>a\<in>set (take n ys). \<forall>b\<in>set (drop n ys). P a b"
    unfolding sorted_wrt_append by blast
qed


lemma take_cutoff_length:
  assumes "sorts_desc sort_values xs"
  shows "length (take n (filter P (sort_values xs))) = min n (length (filter P xs))"
  using sorts_desc_filter_length [OF assms, of P] by simp

lemma take_cutoff_subset:
  assumes "sorts_desc sort_values xs"
  shows "set (take n (filter P (sort_values xs))) \<subseteq> {r \<in> set xs. P r}"
proof
  fix r assume "r \<in> set (take n (filter P (sort_values xs)))"
  then have "r \<in> set (filter P (sort_values xs))" by (rule in_set_takeD)
  then show "r \<in> {r \<in> set xs. P r}" using sorts_desc_set [OF assms] by simp
qed

lemma take_cutoff_top:
  assumes "sorts_desc sort_values xs"
  shows "\<exists>rest. mset (take n (filter (\<lambda>r. rating_ge (r ''hotel_rating'') m) (sort_values xs)))
              + mset rest = mset (filter (\<lambda>r. rating_ge (r ''hotel_rating'') m) xs)
           \<and> (\<forall>a\<in>set (take n (filter (\<lambda>r. rating_ge (r ''hotel_rating'') m) (sort_values xs))).
                \<forall>b\<in>set rest. val_ge (a ''hotel_rating'') (b ''hotel_rating''))"
  using top_rows [OF sorted_cutoff [OF assms, of m], of n]
    sorts_desc_filter_mset [OF assms, of "\<lambda>r. rating_ge (r ''hotel_rating'') m"]
  by simp


text \<open>
  Claim C1. On a table with the columns \<open>city_name\<close> and \<open>hotel_rating\<close> whose ratings
  are floats, for a sort that keeps its promise and a count \<open>top_n\<close> that is not negative,
  the selection returns: the rows of the city are sorted by rating descending, those
  under the minimum rating are dropped, and the first \<open>top_n\<close> are taken. Their number is
  the minimum of \<open>top_n\<close> and the number of rows of the table that match the city and
  the minimum rating; every one is of the city and has a rating of at least the minimum;
  they are in descending order of rating; and no matching row that is left out has a
  higher rating than one that is returned.
\<close>

theorem city_df_top_n:
  assumes "''city_name'' \<in> set (columns df)" and "''hotel_rating'' \<in> set (columns df)"
    and "list_all (\<lambda>r. \<not> is_str (r ''hotel_rating'')) (rows df)"
    and "sorts_desc sort_values (filter (\<lambda>r. city_eq (r ''city_name'') selected_city) (rows df))"
    and "0 \<le> top_n"
  shows "\<exists>out. city_df sort_values df selected_city min_rating top_n = Inr out
     \<and> rows out = take (nat top_n) (filter (\<lambda>r. rating_ge (r ''hotel_rating'') min_rating)
          (sort_values (filter (\<lambda>r. city_eq (r ''city_name'') selected_city) (rows df))))
     \<and> length (rows out) = min (nat top_n)
          (length (filter (\<lambda>r. city_eq (r ''city_name'') selected_city
                             \<and> rating_ge (r ''hotel_rating'') min_rating) (rows df)))
     \<and> list_all (\<lambda>r. city_eq (r ''city_name'') selected_city) (rows out)
     \<and> list_all (\<lambda>r. rating_ge (r ''hotel_rating'') min_rating) (rows out)
     \<and> sorted_wrt (\<lambda>a b. val_ge (a ''hotel_rating'') (b ''hotel_rating'')) (rows out)
     \<and> (\<exists>rest. mset (rows out) + mset rest =
            mset (filter (\<lambda>r. city_eq (r ''city_name'') selected_city
                             \<and> rating_ge (r ''hotel_rating'') min_rating) (rows df))
          \<and> (\<forall>a\<in>set (rows out). \<forall>b\<in>set rest.
                val_ge (a ''hotel_rating'') (b ''hotel_rating'')))"
proof -
  let ?city = "\<lambda>r. city_eq (r ''city_name'') selected_city"
  let ?cut = "\<lambda>r. rating_ge (r ''hotel_rating'') min_rating"
  let ?xs = "filter ?city (rows df)"
  let ?sel = "take (nat top_n) (filter ?cut (sort_values ?xs))"
  let ?out = "df\<lparr>rows := ?sel\<rparr>"
  have both: "filter ?cut ?xs = filter (\<lambda>r. ?city r \<and> ?cut r) (rows df)"
    by simp
  have ret: "city_df sort_values df selected_city min_rating top_n = Inr ?out"
    unfolding city_df_returns [OF assms(1-3)] head_nonneg [OF assms(5)] ..
  have rows: "rows ?out = ?sel" by simp
  have len: "length ?sel = min (nat top_n) (length (filter (\<lambda>r. ?city r \<and> ?cut r) (rows df)))"
    unfolding take_cutoff_length [OF assms(4)] both ..
  have sub: "set ?sel \<subseteq> {r \<in> set ?xs. ?cut r}"
    by (rule take_cutoff_subset [OF assms(4)])
  have city: "list_all ?city ?sel"
    unfolding list_all_iff using sub by auto
  have cut: "list_all ?cut ?sel"
    unfolding list_all_iff using sub by auto
  have sorted: "sorted_wrt (\<lambda>a b. val_ge (a ''hotel_rating'') (b ''hotel_rating'')) ?sel"
    by (rule sorted_wrt_take [OF sorted_cutoff [OF assms(4)]])
  have top: "\<exists>rest. mset ?sel + mset rest = mset (filter (\<lambda>r. ?city r \<and> ?cut r) (rows df))
          \<and> (\<forall>a\<in>set ?sel. \<forall>b\<in>set rest. val_ge (a ''hotel_rating'') (b ''hotel_rating''))"
    using take_cutoff_top [OF assms(4), of "nat top_n" min_rating] unfolding both .
  show ?thesis
    apply (rule exI [of _ ?out])
    unfolding rows
    apply (intro conjI)
          apply (rule ret)
         apply (rule refl)
        apply (rule len)
       apply (rule city)
      apply (rule cut)
     apply (rule sorted)
    apply (rule top)
    done
qed


lemma hotel_cells:
  "hotel c n r d ''city_name'' = Str c"
  "hotel c n r d ''hotel_name'' = n"
  "hotel c n r d ''hotel_rating'' = r"
  "hotel c n r d ''hotel_latitude'' = Float (Fin 48)"
  "hotel c n r d ''hotel_longitude'' = Float (Fin 2)"
  "hotel c n r d ''hotel_url'' = Str (py ''https://www.booking.com/h'')"
  "hotel c n r d ''hotel_description'' = d"
  by (simp_all add: hotel_def)

lemmas example_rows = hotel_a_def hotel_b_def hotel_c_def hotel_d_def hotel_e_def hotel_f_def

lemma example_in_city:
  "filter (\<lambda>r. city_eq (r ''city_name'') (Some (py ''Paris''))) (rows example_df) =
     [hotel_a, hotel_c, hotel_d]"
  by (simp add: example_df_def example_rows hotel_cells py_eq_iff)

lemma example_sorted: "stable_sort_desc [hotel_a, hotel_c, hotel_d] = [hotel_c, hotel_a, hotel_d]"
  by (simp add: desc_na_last_def example_rows hotel_cells)

lemma example_sorts_desc:
  "sorts_desc stable_sort_desc
     (filter (\<lambda>r. city_eq (r ''city_name'') (Some (py ''Paris''))) (rows example_df))"
  unfolding example_in_city sorts_desc_def example_sorted
  by (simp add: desc_na_last_def example_rows hotel_cells)

theorem city_df_top_n_witness:
  "\<exists>out. city_df stable_sort_desc example_df (Some (py ''Paris'')) 8 20 = Inr out
     \<and> rows out = [hotel_c, hotel_a]
     \<and> length (rows out) = 2
     \<and> list_all (\<lambda>r. r ''city_name'' = Str (py ''Paris'')) (rows out)
     \<and> sorted_wrt (\<lambda>a b. val_ge (a ''hotel_rating'') (b ''hotel_rating'')) (rows out)"
proof -
  have c1: "''city_name'' \<in> set (columns example_df)"
    by (simp add: example_df_def all_columns_def)
  have c2: "''hotel_rating'' \<in> set (columns example_df)"
    by (simp add: example_df_def all_columns_def)
  have num: "list_all (\<lambda>r. \<not> is_str (r ''hotel_rating'')) (rows example_df)"
    by (simp add: example_df_def example_rows hotel_cells)
  have n: "(0::int) \<le> 20" by simp
  from city_df_top_n [OF c1 c2 num example_sorts_desc n, of 8] obtain out where
    ret: "city_df stable_sort_desc example_df (Some (py ''Paris'')) 8 20 = Inr out"
    and rows: "rows out = take (nat 20) (filter (\<lambda>r. rating_ge (r ''hotel_rating'') 8)
          (stable_sort_desc (filter (\<lambda>r. city_eq (r ''city_name'') (Some (py ''Paris'')))
             (rows example_df))))"
    and sorted: "sorted_wrt (\<lambda>a b. val_ge (a ''hotel_rating'') (b ''hotel_rating'')) (rows out)"
    by blast
  have rows': "rows out = [hotel_c, hotel_a]"
    unfolding rows example_in_city example_sorted
    by (simp add: example_rows hotel_cells)
  have city: "list_all (\<lambda>r. r ''city_name'' = Str (py ''Paris'')) [hotel_c, hotel_a]"
    by (simp add: example_rows hotel_cells)
  show ?thesis
    using ret rows' city sorted by auto
qed

end
